theory Spec2Isabelle
  imports Complex_Main
begin

section \<open>Data model\<close>

text \<open>
  The route handlers of \<^verbatim>\<open>src/server/Routes/UserRoutes.js\<close> (user and order routers)
  and \<^verbatim>\<open>src/server/Routes/ProductRoutes.js\<close> are embedded as functions from a
  request and the document store to a response and the new store.

  Conventions of the embedding:
  \<^item> an ObjectId is a natural number; \<^verbatim>\<open>toString()\<close> of an ObjectId is injective, so
    the source's \<^verbatim>\<open>a.toString() === b.toString()\<close> is equality of ids, and an id that
    arrives as a path parameter is already a well-formed id; the \<^verbatim>\<open>productId\<close> in the body
    of the cart route is the raw string of the request, since the handler compares it as a
    string before it is cast;
  \<^item> a JavaScript number that a handler computes with (a rating, a cart quantity) is a
    value of the type \<open>number\<close> below, and its arithmetic is that of IEEE 754 doubles;
    a price is only carried from the request to the order and is kept as a rational;
  \<^item> \<^verbatim>\<open>Date.now()\<close> is a parameter \<open>now\<close> of the handler that reads the clock;
  \<^item> a field that may be \<^verbatim>\<open>undefined\<close> is an \<open>option\<close>;
  \<^item> \<^verbatim>\<open>res.status(s); throw new Error(m)\<close> is the error value \<open>HttpError s m\<close>
    (the shared error boundary answers with that status and \<^verbatim>\<open>{ message: m }\<close>);
    \<^verbatim>\<open>res.json(x)\<close> is a response with status 200, \<^verbatim>\<open>res.status(s).json(x)\<close> one
    with status \<open>s\<close>.
\<close>

subsection \<open>JavaScript numbers\<close>

text \<open>
  A JavaScript number is an IEEE 754 binary64 value: \<^verbatim>\<open>NaN\<close>, an infinity, or a finite
  value, which is a rational. The two zeros are one value here, as they are for
  \<^verbatim>\<open>===\<close>; the operations used by the handlers (addition, and division by an array
  length) give equal results on them.

  \<open>round_double\<close> is rounding to the nearest double, ties to the even significand:
  a value with binary exponent \<open>e\<close> (at least -1022, below that the subnormal spacing
  applies) is a multiple of \<open>2 ^ (e - 52)\<close>, and a rounded magnitude of \<open>2 ^ 1024\<close> or
  more is an infinity.
\<close>

datatype number = NaN | PosInfinity | NegInfinity | Finite rat

function bitlen :: "int \<Rightarrow> int" where
  "bitlen n = (if n \<le> 0 then 0 else 1 + bitlen (n div 2))"
  by pat_completeness auto
termination
  by (relation "measure nat") auto

declare bitlen.simps [simp del]

definition pow2 :: "int \<Rightarrow> rat" where
  "pow2 k = (if 0 \<le> k then 2 ^ nat k else 1 / 2 ^ nat (- k))"

text \<open>The binary exponent of a positive rational \<open>a\<close>: the \<open>e\<close> with
  \<open>2 ^ e \<le> a < 2 ^ (e + 1)\<close>.\<close>

definition exponent :: "rat \<Rightarrow> int" where
  "exponent a = (if 1 \<le> a then bitlen \<lfloor>a\<rfloor> - 1 else - bitlen (\<lceil>1 / a\<rceil> - 1))"

definition round_half_even :: "rat \<Rightarrow> int" where
  "round_half_even x =
     (let f = \<lfloor>x\<rfloor>; d = x - of_int f
      in if d < 1 / 2 then f else if 1 / 2 < d then f + 1 else if even f then f else f + 1)"

definition round_magnitude :: "rat \<Rightarrow> rat" where
  "round_magnitude a =
     (let ulp = pow2 (max (exponent a) (- 1022) - 52)
      in of_int (round_half_even (a / ulp)) * ulp)"

definition round_double :: "rat \<Rightarrow> number" where
  "round_double q =
     (if q = 0 then Finite 0
      else let m = round_magnitude \<bar>q\<bar>
           in if 2 ^ 1024 \<le> m then (if q < 0 then NegInfinity else PosInfinity)
              else Finite (if q < 0 then - m else m))"

text \<open>\<^verbatim>\<open>x + y\<close> on numbers.\<close>

fun js_add :: "number \<Rightarrow> number \<Rightarrow> number" where
  "js_add NaN y = NaN"
| "js_add x NaN = NaN"
| "js_add PosInfinity NegInfinity = NaN"
| "js_add NegInfinity PosInfinity = NaN"
| "js_add PosInfinity y = PosInfinity"
| "js_add NegInfinity y = NegInfinity"
| "js_add x PosInfinity = PosInfinity"
| "js_add x NegInfinity = NegInfinity"
| "js_add (Finite a) (Finite b) = round_double (a + b)"

text \<open>\<^verbatim>\<open>x / xs.length\<close>: the divisor is the length of an array, a non-negative integer
  below \<open>2 ^ 32\<close>, which is a double as it stands.\<close>

fun js_div_length :: "number \<Rightarrow> nat \<Rightarrow> number" where
  "js_div_length NaN n = NaN"
| "js_div_length PosInfinity n = PosInfinity"
| "js_div_length NegInfinity n = NegInfinity"
| "js_div_length (Finite a) n =
     (if n = 0 then (if a = 0 then NaN else if 0 < a then PosInfinity else NegInfinity)
      else round_double (a / of_nat n))"

subsection \<open>Documents\<close>

type_synonym objid = nat
type_synonym timestamp = nat

record review =
  review_name :: string
  review_rating :: number
  review_comment :: string
  review_user :: objid

record product =
  product_id :: objid
  product_name :: string
  reviews :: "review list"
  rating :: number
  numReviews :: nat

record cart_item =
  product :: objid
  quantity :: number

record user =
  user_id :: objid
  name :: string
  email :: string
  password :: "string option"
  isAdmin :: bool
  createdAt :: timestamp
  passwordResetToken :: "string option"
  passwordResetExpires :: "timestamp option"
  cart :: "cart_item list"

record order_item =
  item_product :: objid
  item_qty :: int
  item_price :: rat

record order =
  order_id :: objid
  order_user :: objid
  order_items :: "order_item list"
  order_shippingAddress :: string
  order_paymentMethod :: string
  order_itemsPrice :: rat
  order_taxPrice :: rat
  order_shippingPrice :: rat
  order_totalPrice :: rat
  isPaid :: bool
  paidAt :: "timestamp option"
  isDelivered :: bool
  deliveredAt :: "timestamp option"
  isCancelled :: bool
  cancelledAt :: "timestamp option"
  status :: "string option"

text \<open>The three collections, and the counter from which a new document takes its id.\<close>

record db =
  users :: "user list"
  products :: "product list"
  orders :: "order list"
  nextId :: objid

section \<open>Responses and errors\<close>

datatype http_error = HttpError nat string

record auth_json =
  auth_id :: objid
  auth_name :: string
  auth_email :: string
  auth_isAdmin :: bool
  auth_token :: string
  auth_createdAt :: "timestamp option"

datatype json = Message string | OrderJson order | AuthJson auth_json

record response =
  statusCode :: nat
  body :: json

type_synonym outcome = "(http_error + response) \<times> db"

fun status_of :: "http_error + response \<Rightarrow> nat" where
  "status_of (Inl (HttpError s m)) = s"
| "status_of (Inr r) = statusCode r"

section \<open>The document store\<close>

text \<open>
  Modelled from the spec: the Mongoose models (\<^verbatim>\<open>Models/UserModel.js\<close>,
  \<^verbatim>\<open>Models/OrderModel.js\<close>, \<^verbatim>\<open>Models/ProductModel.js\<close>) are not among the sources.
  A collection is the list of its documents in insertion order. \<open>findOne\<close> returns the
  first document that satisfies the query, \<open>findById\<close> the first with the given id;
  \<open>save\<close> of a loaded document replaces the stored document of the same id, and of a
  new document appends it. Every save of a document whose fields cast to their types
  succeeds (the spec describes no schema validation).
\<close>

definition findOne :: "('a \<Rightarrow> bool) \<Rightarrow> 'a list \<Rightarrow> 'a option" where
  "findOne q docs = find q docs"

definition findById :: "('a \<Rightarrow> objid) \<Rightarrow> 'a list \<Rightarrow> objid \<Rightarrow> 'a option" where
  "findById idf docs i = find (\<lambda>d. idf d = i) docs"

fun save :: "('a \<Rightarrow> objid) \<Rightarrow> 'a \<Rightarrow> 'a list \<Rightarrow> 'a list" where
  "save idf doc [] = [doc]"
| "save idf doc (d # ds) = (if idf d = idf doc then doc # ds else d # save idf doc ds)"

section \<open>The auth gate\<close>

text \<open>
  Modelled from the spec: \<^verbatim>\<open>Middleware/AuthMiddleware.js\<close> is not among the sources.
  \<open>protect\<close> decodes and verifies the bearer token; on success it resolves the user the
  token names, with the password hash excluded; it fails with status 401 on a missing or
  invalid or expired token and on an unknown user. The verification of the token
  (\<open>verify\<close>, giving the user id the token carries) and the text of the 401 message
  (\<open>denied\<close>) are parameters.
\<close>

record gate =
  verify :: "string \<Rightarrow> objid option"
  denied :: string

definition protect :: "gate \<Rightarrow> string option \<Rightarrow> db \<Rightarrow> http_error + user" where
  "protect g bearer st =
     (case bearer of
        None \<Rightarrow> Inl (HttpError 401 (denied g))
      | Some token \<Rightarrow>
          (case verify g token of
             None \<Rightarrow> Inl (HttpError 401 (denied g))
           | Some uid \<Rightarrow>
               (case findById user_id (users st) uid of
                  None \<Rightarrow> Inl (HttpError 401 (denied g))
                | Some u \<Rightarrow> Inr (u\<lparr>password := None\<rparr>))))"

text \<open>A route that lists \<open>protect\<close> before its handler runs the handler only behind the gate.\<close>

definition protected :: "gate \<Rightarrow> string option \<Rightarrow> (user \<Rightarrow> db \<Rightarrow> outcome) \<Rightarrow> db \<Rightarrow> outcome" where
  "protected g bearer handler st =
     (case protect g bearer st of
        Inl e \<Rightarrow> (Inl e, st)
      | Inr reqUser \<Rightarrow> handler reqUser st)"

section \<open>Order routes\<close>

text \<open>\<^verbatim>\<open>orderRouter.put("/:id/cancel", protect, ...)\<close>\<close>

definition put_cancel_handler :: "timestamp \<Rightarrow> objid \<Rightarrow> user \<Rightarrow> db \<Rightarrow> outcome" where
  "put_cancel_handler now oid reqUser st =
     (case findById order_id (orders st) oid of
        Some order \<Rightarrow>
          if isPaid order then (Inl (HttpError 400 ''Cannot cancel a paid order''), st)
          else
            let updatedOrder = order\<lparr>isCancelled := True, cancelledAt := Some now\<rparr>
            in (Inr \<lparr>statusCode = 200, body = OrderJson updatedOrder\<rparr>,
                st\<lparr>orders := save order_id updatedOrder (orders st)\<rparr>)
      | None \<Rightarrow> (Inl (HttpError 404 ''Order not found''), st))"

definition put_cancel :: "gate \<Rightarrow> timestamp \<Rightarrow> string option \<Rightarrow> objid \<Rightarrow> db \<Rightarrow> outcome" where
  "put_cancel g now bearer oid st = protected g bearer (put_cancel_handler now oid) st"

text \<open>\<^verbatim>\<open>orderRouter.get('/orders/:id/cancel', ...)\<close>: the route lists no gate, so the
  bearer token of the request is never read.\<close>

definition get_cancel :: "string option \<Rightarrow> objid \<Rightarrow> db \<Rightarrow> outcome" where
  "get_cancel bearer oid st =
     (case findById order_id (orders st) oid of
        None \<Rightarrow> (Inr \<lparr>statusCode = 404, body = Message ''Order not found''\<rparr>, st)
      | Some order \<Rightarrow>
          let updatedOrder = order\<lparr>status := Some ''Cancelled''\<rparr>
          in (Inr \<lparr>statusCode = 200, body = OrderJson updatedOrder\<rparr>,
              st\<lparr>orders := save order_id updatedOrder (orders st)\<rparr>))"

text \<open>\<^verbatim>\<open>orderRouter.post("/", protect, ...)\<close>. The body's \<^verbatim>\<open>orderItems\<close> is \<open>None\<close>
  when the field is absent. An array is truthy in JavaScript even when empty, so
  \<^verbatim>\<open>orderItems && orderItems.length === 0\<close> holds exactly for a present, empty array.
  Modelled from the spec: the Order schema is not among the sources; an order built
  without an item array has the empty array (the default of an array path), and its flags
  start unset.\<close>

record order_body =
  orderItems :: "order_item list option"
  shippingAddress :: string
  paymentMethod :: string
  itemsPrice :: rat
  taxPrice :: rat
  shippingPrice :: rat
  totalPrice :: rat

definition new_Order :: "objid \<Rightarrow> objid \<Rightarrow> order_body \<Rightarrow> order" where
  "new_Order oid uid b =
     \<lparr>order_id = oid, order_user = uid,
      order_items = (case orderItems b of None \<Rightarrow> [] | Some items \<Rightarrow> items),
      order_shippingAddress = shippingAddress b, order_paymentMethod = paymentMethod b,
      order_itemsPrice = itemsPrice b, order_taxPrice = taxPrice b,
      order_shippingPrice = shippingPrice b, order_totalPrice = totalPrice b,
      isPaid = False, paidAt = None, isDelivered = False, deliveredAt = None,
      isCancelled = False, cancelledAt = None, status = None\<rparr>"

definition create_order_handler :: "order_body \<Rightarrow> user \<Rightarrow> db \<Rightarrow> outcome" where
  "create_order_handler b reqUser st =
     (if (case orderItems b of None \<Rightarrow> False | Some items \<Rightarrow> length items = 0)
      then (Inl (HttpError 400 ''No order items''), st)
      else
        let order = new_Order (nextId st) (user_id reqUser) b
        in (Inr \<lparr>statusCode = 201, body = OrderJson order\<rparr>,
            st\<lparr>orders := orders st @ [order], nextId := Suc (nextId st)\<rparr>))"

definition create_order :: "gate \<Rightarrow> string option \<Rightarrow> order_body \<Rightarrow> db \<Rightarrow> outcome" where
  "create_order g bearer b st = protected g bearer (create_order_handler b) st"

section \<open>Product routes\<close>

text \<open>\<^verbatim>\<open>productRoute.post("/:id/review", protect, ...)\<close>. \<^verbatim>\<open>reduce\<close> is a left fold
  from 0 with the step \<^verbatim>\<open>(acc, item) => item.rating + acc\<close>. The \<open>rb_rating\<close> of the
  request is the number that \<^verbatim>\<open>Number(rating)\<close> yields for the body's rating (\<open>NaN\<close>
  when it is not numeric).\<close>

record review_body =
  rb_rating :: number
  rb_comment :: string

definition review_handler :: "objid \<Rightarrow> review_body \<Rightarrow> user \<Rightarrow> db \<Rightarrow> outcome" where
  "review_handler pid b reqUser st =
     (case findById product_id (products st) pid of
        Some p \<Rightarrow>
          (case find (\<lambda>r. review_user r = user_id reqUser) (reviews p) of
             Some alreadyReviewed \<Rightarrow> (Inl (HttpError 400 ''Product already Reviewed''), st)
           | None \<Rightarrow>
               let review = \<lparr>review_name = name reqUser, review_rating = rb_rating b,
                             review_comment = rb_comment b, review_user = user_id reqUser\<rparr>;
                   pushed = reviews p @ [review];
                   p' = p\<lparr>reviews := pushed,
                          numReviews := length pushed,
                          rating := js_div_length
                                      (foldl (\<lambda>acc item. js_add (review_rating item) acc)
                                         (Finite 0) pushed)
                                      (length pushed)\<rparr>
               in (Inr \<lparr>statusCode = 201, body = Message ''Reviewed Added''\<rparr>,
                   st\<lparr>products := save product_id p' (products st)\<rparr>))
      | None \<Rightarrow> (Inl (HttpError 404 ''Product not Found''), st))"

text \<open>The mean of a list of ratings in double arithmetic: the ratings are added from left
  to right, starting from 0, and the sum is divided by their count; the sum after each
  addition and the quotient are rounded to a double.\<close>

definition js_mean :: "number list \<Rightarrow> number" where
  "js_mean rs = js_div_length (foldl (\<lambda>acc r. js_add r acc) (Finite 0) rs) (length rs)"

text \<open>The product after a review of the given user with the given body has been pushed:
  the review count and the rating are recomputed from the whole list.\<close>

definition pushed_review :: "user \<Rightarrow> review_body \<Rightarrow> product \<Rightarrow> product" where
  "pushed_review reqUser b p =
     (let pushed = reviews p @ [\<lparr>review_name = name reqUser, review_rating = rb_rating b,
                                  review_comment = rb_comment b, review_user = user_id reqUser\<rparr>]
      in p\<lparr>reviews := pushed, numReviews := length pushed,
           rating := js_mean (map review_rating pushed)\<rparr>)"

definition post_review :: "gate \<Rightarrow> string option \<Rightarrow> objid \<Rightarrow> review_body \<Rightarrow> db \<Rightarrow> outcome" where
  "post_review g bearer pid b st = protected g bearer (review_handler pid b) st"


text \<open>The invariant of the data model: no user owns two reviews of one product.\<close>

definition one_review_per_user :: "db \<Rightarrow> bool" where
  "one_review_per_user st = list_all (\<lambda>p. distinct (map review_user (reviews p))) (products st)"

section \<open>User routes\<close>

text \<open>\<^verbatim>\<open>userRouter.post('/users/:id/cart', ...)\<close>. The body carries \<^verbatim>\<open>productId\<close>, a
  string, and \<^verbatim>\<open>quantity\<close>, a number (the route's schema comment declares these types).

  The handler compares \<^verbatim>\<open>item.product.toString()\<close> with the string of the request as it
  came; only when no entry matches is the string cast to an ObjectId, by the push into
  the cart. The printing and the casting of ObjectIds belong to the database library and
  are parameters: \<open>toString\<close> prints an id, \<open>castObjectId\<close> casts a string to the id it
  spells, or fails.

  Modelled from the spec: the User schema and the error boundary are not among the
  sources. A string that casts to no id cannot be stored as a product reference: the save
  fails, which is an unhandled error, answered with status 500 (and a message
  \<open>castError\<close>), and nothing is persisted.

  \<^verbatim>\<open>find\<close> returns a reference to the first matching element of the array, so the
  assignment to \<^verbatim>\<open>existingCartItem.quantity\<close> updates that element in place.\<close>

record objectid_lib =
  toString :: "objid \<Rightarrow> string"
  castObjectId :: "string \<Rightarrow> objid option"
  castError :: string

record cart_body =
  productId :: string
  cb_quantity :: number

fun update_first :: "('a \<Rightarrow> bool) \<Rightarrow> ('a \<Rightarrow> 'a) \<Rightarrow> 'a list \<Rightarrow> 'a list" where
  "update_first q f [] = []"
| "update_first q f (x # xs) = (if q x then f x # xs else x # update_first q f xs)"

definition add_to_cart :: "objectid_lib \<Rightarrow> objid \<Rightarrow> cart_body \<Rightarrow> db \<Rightarrow> outcome" where
  "add_to_cart lib uid b st =
     (case findById user_id (users st) uid of
        None \<Rightarrow> (Inl (HttpError 404 ''User not found''), st)
      | Some u \<Rightarrow>
          (case find (\<lambda>item. toString lib (product item) = productId b) (cart u) of
             Some existingCartItem \<Rightarrow>
               let cart' = update_first (\<lambda>item. toString lib (product item) = productId b)
                             (\<lambda>item. item\<lparr>quantity := js_add (quantity item) (cb_quantity b)\<rparr>)
                             (cart u)
               in (Inr \<lparr>statusCode = 200, body = Message ''Product added to cart''\<rparr>,
                   st\<lparr>users := save user_id (u\<lparr>cart := cart'\<rparr>) (users st)\<rparr>)
           | None \<Rightarrow>
               (case castObjectId lib (productId b) of
                  None \<Rightarrow> (Inl (HttpError 500 (castError lib)), st)
                | Some pid \<Rightarrow>
                    let cart' = cart u @ [\<lparr>product = pid, quantity = cb_quantity b\<rparr>]
                    in (Inr \<lparr>statusCode = 200, body = Message ''Product added to cart''\<rparr>,
                        st\<lparr>users := save user_id (u\<lparr>cart := cart'\<rparr>) (users st)\<rparr>))))"

text \<open>An ObjectId is twelve bytes. It prints as 24 hexadecimal digits in lower case, and a
  string of 24 hexadecimal digits in either case casts to the id it spells.\<close>

definition hexDigit :: "nat \<Rightarrow> char" where
  "hexDigit d = ''0123456789abcdef'' ! (d mod 16)"

fun toHex :: "nat \<Rightarrow> nat \<Rightarrow> string" where
  "toHex 0 i = []"
| "toHex (Suc n) i = toHex n (i div 16) @ [hexDigit (i mod 16)]"

definition hexValue :: "char \<Rightarrow> nat option" where
  "hexValue c =
     (let k = of_char c :: nat
      in if 48 \<le> k \<and> k \<le> 57 then Some (k - 48)
         else if 97 \<le> k \<and> k \<le> 102 then Some (k - 87)
         else if 65 \<le> k \<and> k \<le> 70 then Some (k - 55)
         else None)"

fun fromHex :: "nat \<Rightarrow> string \<Rightarrow> nat option" where
  "fromHex acc [] = Some acc"
| "fromHex acc (c # cs) =
     (case hexValue c of None \<Rightarrow> None | Some d \<Rightarrow> fromHex (16 * acc + d) cs)"

definition hex_lib :: objectid_lib where
  "hex_lib = \<lparr>toString = toHex 24,
              castObjectId = (\<lambda>s. if length s = 24 then fromHex 0 s else None),
              castError = ''Cast to ObjectId failed''\<rparr>"

text \<open>The invariant of the data model: within a cart, no product has two entries.\<close>

definition carts_unique :: "db \<Rightarrow> bool" where
  "carts_unique st = list_all (\<lambda>u. distinct (map product (cart u))) (users st)"

text \<open>Modelled from the spec: the User schema and its hooks are not among the sources.
  The password is persisted hashed (\<open>hash\<close>, a parameter, stands for the pre-save hook
  that replaces a newly assigned password by its hash); \<open>matchPassword\<close> verifies an
  entered password against the stored hash and \<open>generateToken\<close>
  (\<^verbatim>\<open>utils/generateToken.js\<close>) signs a token for a user id: both are parameters. A new
  user is no admin, has no reset token and an empty cart.\<close>

record crypto =
  hash :: "string \<Rightarrow> string"
  matchPassword :: "user \<Rightarrow> string \<Rightarrow> bool"
  generateToken :: "objid \<Rightarrow> string"

record register_body =
  reg_name :: string
  reg_email :: string
  reg_password :: string

definition User_create :: "crypto \<Rightarrow> timestamp \<Rightarrow> register_body \<Rightarrow> db \<Rightarrow> user \<times> db" where
  "User_create c now b st =
     (let u = \<lparr>user_id = nextId st, name = reg_name b, email = reg_email b,
               password = Some (hash c (reg_password b)), isAdmin = False, createdAt = now,
               passwordResetToken = None, passwordResetExpires = None, cart = []\<rparr>
      in (u, st\<lparr>users := users st @ [u], nextId := Suc (nextId st)\<rparr>))"

text \<open>\<^verbatim>\<open>userRouter.post("/", ...)\<close> (register). The document that \<^verbatim>\<open>User.create\<close>
  returns is an object, hence truthy: the \<^verbatim>\<open>else\<close> branch ("Invalid User Data") is
  never taken.\<close>

definition register :: "crypto \<Rightarrow> timestamp \<Rightarrow> register_body \<Rightarrow> db \<Rightarrow> outcome" where
  "register c now b st =
     (case findOne (\<lambda>u. email u = reg_email b) (users st) of
        Some userExists \<Rightarrow> (Inl (HttpError 400 ''User already exists''), st)
      | None \<Rightarrow>
          let (u, st') = User_create c now b st
          in (Inr \<lparr>statusCode = 201,
                   body = AuthJson \<lparr>auth_id = user_id u, auth_name = name u,
                     auth_email = email u, auth_isAdmin = isAdmin u,
                     auth_token = generateToken c (user_id u), auth_createdAt = None\<rparr>\<rparr>,
              st'))"

text \<open>\<^verbatim>\<open>userRouter.post("/login", ...)\<close>. The router registers this path twice with the
  same handler; the first registration answers.\<close>

record login_body =
  login_email :: string
  login_password :: string

definition login :: "crypto \<Rightarrow> login_body \<Rightarrow> db \<Rightarrow> outcome" where
  "login c b st =
     (let found = findOne (\<lambda>u. email u = login_email b) (users st)
      in if (case found of None \<Rightarrow> False | Some u \<Rightarrow> matchPassword c u (login_password b))
         then
           (case found of
              Some u \<Rightarrow>
                (Inr \<lparr>statusCode = 200,
                      body = AuthJson \<lparr>auth_id = user_id u, auth_name = name u,
                        auth_email = email u, auth_isAdmin = isAdmin u,
                        auth_token = generateToken c (user_id u),
                        auth_createdAt = Some (createdAt u)\<rparr>\<rparr>, st)
            | None \<Rightarrow> (Inl (HttpError 401 ''Invalid Email or Password''), st))
         else (Inl (HttpError 401 ''Invalid Email or Password''), st))"

text \<open>\<^verbatim>\<open>userRouter.put('/reset-password/:token', ...)\<close>. The query is on the token alone;
  the handler reads neither the clock nor \<^verbatim>\<open>passwordResetExpires\<close>.\<close>

definition reset_password :: "crypto \<Rightarrow> string \<Rightarrow> string \<Rightarrow> db \<Rightarrow> outcome" where
  "reset_password c token pw st =
     (case findOne (\<lambda>u. passwordResetToken u = Some token) (users st) of
        None \<Rightarrow> (Inl (HttpError 400 ''Invalid or expired token''), st)
      | Some u \<Rightarrow>
          let u' = u\<lparr>password := Some (hash c pw), passwordResetToken := None,
                     passwordResetExpires := None\<rparr>
          in (Inr \<lparr>statusCode = 200, body = Message ''Password reset successful''\<rparr>,
              st\<lparr>users := save user_id u' (users st)\<rparr>))"

text \<open>The specification's condition for rejecting a completion request at time \<open>now\<close>:
  no user holds the token, or the expiry stored with it has passed.\<close>

definition token_absent_or_expired :: "timestamp \<Rightarrow> string \<Rightarrow> db \<Rightarrow> bool" where
  "token_absent_or_expired now token st =
     (case findOne (\<lambda>u. passwordResetToken u = Some token) (users st) of
        None \<Rightarrow> True
      | Some u \<Rightarrow> (case passwordResetExpires u of None \<Rightarrow> False | Some t \<Rightarrow> t < now))"

section \<open>Sample data\<close>

text \<open>A small store for evaluating the handlers: the user of the spec's registration
  example and a second user, one product of the seed data (which come with a rating and a
  review count but without reviews) and one order of the first user.\<close>

definition sample_gate :: gate where
  "sample_gate =
     \<lparr>verify = (\<lambda>t. if t = ''tok-A'' then Some 1 else if t = ''tok-B'' then Some 2 else None),
      denied = ''Not authorized''\<rparr>"

definition sample_crypto :: crypto where
  "sample_crypto =
     \<lparr>hash = (\<lambda>p. CHR ''#'' # p),
      matchPassword = (\<lambda>u p. password u = Some (CHR ''#'' # p)),
      generateToken = (\<lambda>i. if i = 1 then ''tok-A'' else if i = 2 then ''tok-B'' else ''tok'')\<rparr>"

definition user_A :: user where
  "user_A = \<lparr>user_id = 1, name = ''A'', email = ''a@x.com'', password = Some ''#p'',
             isAdmin = False, createdAt = 10, passwordResetToken = Some ''r1'',
             passwordResetExpires = Some 100,
             cart = [\<lparr>product = 171, quantity = Finite 2\<rparr>]\<rparr>"

definition user_B :: user where
  "user_B = \<lparr>user_id = 2, name = ''B'', email = ''b@x.com'', password = Some ''#q'',
             isAdmin = False, createdAt = 11, passwordResetToken = None,
             passwordResetExpires = None, cart = []\<rparr>"

definition sample_order :: "bool \<Rightarrow> order" where
  "sample_order paid =
     \<lparr>order_id = 5, order_user = 1,
      order_items = [\<lparr>item_product = 7, item_qty = 1, item_price = 89\<rparr>],
      order_shippingAddress = ''Prishtina'', order_paymentMethod = ''PayPal'',
      order_itemsPrice = 89, order_taxPrice = 0, order_shippingPrice = 0,
      order_totalPrice = 89,
      isPaid = paid, paidAt = (if paid then Some 20 else None), isDelivered = False,
      deliveredAt = None, isCancelled = False, cancelledAt = None, status = None\<rparr>"

definition sample_product :: product where
  "sample_product = \<lparr>product_id = 7, product_name = ''Honest Hydrogel Cream'', reviews = [],
                     rating = Finite 4, numReviews = 4\<rparr>"

definition sample_db :: "bool \<Rightarrow> db" where
  "sample_db paid = \<lparr>users = [user_A, user_B], products = [sample_product],
                     orders = [sample_order paid], nextId = 8\<rparr>"




definition sample_order_body :: "order_item list option \<Rightarrow> order_body" where
  "sample_order_body items =
     \<lparr>orderItems = items, shippingAddress = ''Prishtina'', paymentMethod = ''PayPal'',
      itemsPrice = 89, taxPrice = 0, shippingPrice = 0, totalPrice = 89\<rparr>"

definition empty_db :: db where
  "empty_db = \<lparr>users = [], products = [], orders = [], nextId = 1\<rparr>"

definition register_A :: register_body where
  "register_A = \<lparr>reg_name = ''A'', reg_email = ''a@x.com'', reg_password = ''p''\<rparr>"

section \<open>Facts about the store\<close>

lemma findById_id: "findById idf docs i = Some d \<Longrightarrow> idf d = i"
  unfolding findById_def by (induction docs) (auto split: if_splits)

lemma findById_mem: "findById idf docs i = Some d \<Longrightarrow> d \<in> set docs"
  unfolding findById_def by (induction docs) (auto split: if_splits)

lemma findById_save_same: "findById idf (save idf doc docs) (idf doc) = Some doc"
  unfolding findById_def by (induction docs) auto

lemma findById_save_other:
  "i \<noteq> idf doc \<Longrightarrow> findById idf (save idf doc docs) i = findById idf docs i"
  unfolding findById_def by (induction docs) auto

lemma findOne_None_iff: "findOne q docs = None \<longleftrightarrow> (\<forall>d\<in>set docs. \<not> q d)"
  by (auto simp: findOne_def find_None_iff)

lemma list_all_save:
  "list_all P docs \<Longrightarrow> P doc \<Longrightarrow> list_all P (save idf doc docs)"
  by (induction docs) auto

section \<open>Facts about the gate\<close>

lemma protect_status: "protect g bearer st = Inl e \<Longrightarrow> status_of (Inl e) = 401"
  by (auto simp: protect_def split: option.splits)

lemma protect_None: "protect g None st = Inl (HttpError 401 (denied g))"
  by (simp add: protect_def)

lemma protect_users:
  "users st' = users st \<Longrightarrow> protect g bearer st' = protect g bearer st"
  by (auto simp: protect_def split: option.splits)

lemma protected_Inr: "protect g bearer st = Inr u \<Longrightarrow> protected g bearer h st = h u st"
  by (simp add: protected_def)

lemma protected_Inl: "protect g bearer st = Inl e \<Longrightarrow> protected g bearer h st = (Inl e, st)"
  by (simp add: protected_def)

lemma protect_sample_A:
  "protect sample_gate (Some ''tok-A'') (sample_db paid) = Inr (user_A\<lparr>password := None\<rparr>)"
  by (simp add: protect_def sample_gate_def sample_db_def findById_def user_A_def)


lemma find_sample_order:
  "findById order_id (orders (sample_db paid)) 5 = Some (sample_order paid)"
  by (simp add: sample_db_def findById_def sample_order_def)

section \<open>Cancelling an order\<close>

text \<open>
  C1. For an authenticated request and an order present in the store,
  \<^verbatim>\<open>PUT /orders/:id/cancel\<close> answers 400 and leaves the store as it is when the order's
  paid flag is set; otherwise it answers 200, and the stored order is the old one with
  the cancelled flag set and the cancellation timestamp set to the current time, every
  other order being as before.
\<close>

theorem put_cancel_paid_rejected_unpaid_cancelled:
  assumes auth: "protect g bearer st = Inr reqUser"
      and found: "findById order_id (orders st) oid = Some order"
  shows "(isPaid order \<longrightarrow>
            status_of (fst (put_cancel g now bearer oid st)) = 400
          \<and> snd (put_cancel g now bearer oid st) = st)
       \<and> (\<not> isPaid order \<longrightarrow>
            status_of (fst (put_cancel g now bearer oid st)) = 200
          \<and> findById order_id (orders (snd (put_cancel g now bearer oid st))) oid
              = Some (order\<lparr>isCancelled := True, cancelledAt := Some now\<rparr>)
          \<and> (\<forall>j. j \<noteq> oid \<longrightarrow>
                findById order_id (orders (snd (put_cancel g now bearer oid st))) j
                  = findById order_id (orders st) j))"
proof -
  have oid: "order_id order = oid" using found by (rule findById_id)
  have run: "put_cancel g now bearer oid st = put_cancel_handler now oid reqUser st"
    unfolding put_cancel_def using auth by (rule protected_Inr)
  show ?thesis
  proof (cases "isPaid order")
    case True
    then show ?thesis using found by (simp add: run put_cancel_handler_def)
  next
    case False
    let ?o = "order\<lparr>isCancelled := True, cancelledAt := Some now\<rparr>"
    have id': "order_id ?o = oid" using oid by simp
    have st': "put_cancel g now bearer oid st =
        (Inr \<lparr>statusCode = 200, body = OrderJson ?o\<rparr>,
         st\<lparr>orders := save order_id ?o (orders st)\<rparr>)"
      using found False by (simp add: run put_cancel_handler_def Let_def)
    have same: "findById order_id (save order_id ?o (orders st)) oid = Some ?o"
      using findById_save_same [of order_id ?o "orders st"] id' by simp
    have other: "\<And>j. j \<noteq> oid \<Longrightarrow>
        findById order_id (save order_id ?o (orders st)) j = findById order_id (orders st) j"
      using findById_save_other [of _ order_id ?o "orders st"] id' by simp
    show ?thesis using False same other by (simp add: st')
  qed
qed

theorem put_cancel_witness:
  "protect sample_gate (Some ''tok-A'') (sample_db False) = Inr (user_A\<lparr>password := None\<rparr>)
   \<and> findById order_id (orders (sample_db False)) 5 = Some (sample_order False)
   \<and> \<not> isPaid (sample_order False)
   \<and> status_of (fst (put_cancel sample_gate 42 (Some ''tok-A'') 5 (sample_db False))) = 200
   \<and> findById order_id
        (orders (snd (put_cancel sample_gate 42 (Some ''tok-A'') 5 (sample_db False)))) 5
       = Some ((sample_order False)\<lparr>isCancelled := True, cancelledAt := Some 42\<rparr>)
   \<and> isPaid (sample_order True)
   \<and> status_of (fst (put_cancel sample_gate 42 (Some ''tok-A'') 5 (sample_db True))) = 400
   \<and> snd (put_cancel sample_gate 42 (Some ''tok-A'') 5 (sample_db True)) = sample_db True"
proof -
  have p: "\<not> isPaid (sample_order False)" "isPaid (sample_order True)"
    by (simp_all add: sample_order_def)
  show ?thesis
    using put_cancel_paid_rejected_unpaid_cancelled
            [OF protect_sample_A find_sample_order, of False 42]
          put_cancel_paid_rejected_unpaid_cancelled
            [OF protect_sample_A find_sample_order, of True 42]
          protect_sample_A find_sample_order p
    by simp
qed

section \<open>The ungated cancel route\<close>

text \<open>
  C9. For an order present in the store, paid or not, \<^verbatim>\<open>GET /orders/:id/cancel\<close> without
  a bearer token answers 200 and stores the order with its status text set to
  \<open>''Cancelled''\<close>; the answer does not depend on the token at all. The \<^verbatim>\<open>PUT\<close> cancel
  route answers 401 for the same request without a token, and for a paid order it answers
  400 or 401 whatever the token and leaves the store as it is.
\<close>

theorem get_cancel_bypasses_gate_and_paid_check:
  assumes found: "findById order_id (orders st) oid = Some order"
  shows "status_of (fst (get_cancel None oid st)) = 200
       \<and> findById order_id (orders (snd (get_cancel None oid st))) oid
           = Some (order\<lparr>status := Some ''Cancelled''\<rparr>)
       \<and> get_cancel bearer oid st = get_cancel None oid st
       \<and> status_of (fst (put_cancel g now None oid st)) = 401
       \<and> (isPaid order \<longrightarrow>
            status_of (fst (put_cancel g now bearer oid st)) \<in> {400, 401}
          \<and> snd (put_cancel g now bearer oid st) = st)"
proof -
  let ?o = "order\<lparr>status := Some ''Cancelled''\<rparr>"
  have oid: "order_id ?o = oid" using findById_id [OF found] by simp
  have run: "get_cancel bearer oid st =
      (Inr \<lparr>statusCode = 200, body = OrderJson ?o\<rparr>,
       st\<lparr>orders := save order_id ?o (orders st)\<rparr>)" for bearer
    using found by (simp add: get_cancel_def Let_def)
  have stored: "findById order_id (save order_id ?o (orders st)) oid = Some ?o"
    using findById_save_same [of order_id ?o "orders st"] oid by simp
  have no_token: "status_of (fst (put_cancel g now None oid st)) = 401"
    by (simp add: put_cancel_def protected_Inl [OF protect_None])
  have paid: "status_of (fst (put_cancel g now bearer oid st)) \<in> {400, 401}
            \<and> snd (put_cancel g now bearer oid st) = st" if "isPaid order"
  proof (cases "protect g bearer st")
    case (Inl e)
    then show ?thesis
      using protect_status [OF Inl] by (simp add: put_cancel_def protected_Inl)
  next
    case (Inr u)
    then show ?thesis
      using found that by (simp add: put_cancel_def protected_Inr put_cancel_handler_def)
  qed
  show ?thesis using stored no_token paid by (simp add: run)
qed

theorem get_cancel_witness:
  "findById order_id (orders (sample_db True)) 5 = Some (sample_order True)
   \<and> isPaid (sample_order True)
   \<and> status_of (fst (get_cancel None 5 (sample_db True))) = 200
   \<and> findById order_id (orders (snd (get_cancel None 5 (sample_db True)))) 5
       = Some ((sample_order True)\<lparr>status := Some ''Cancelled''\<rparr>)
   \<and> status_of (fst (put_cancel sample_gate 42 None 5 (sample_db True))) = 401
   \<and> status_of (fst (put_cancel sample_gate 42 (Some ''tok-A'') 5 (sample_db True))) = 400"
proof -
  have p: "isPaid (sample_order True)" by (simp add: sample_order_def)
  have s: "status_of (fst (put_cancel sample_gate 42 (Some ''tok-A'') 5 (sample_db True))) = 400"
    by (simp add: put_cancel_def protected_Inr [OF protect_sample_A] put_cancel_handler_def
          find_sample_order p)
  show ?thesis
    using get_cancel_bypasses_gate_and_paid_check
            [OF find_sample_order, of True None sample_gate 42] find_sample_order p s
    by simp
qed

section \<open>Creating an order\<close>

text \<open>
  C4. For an authenticated request, \<^verbatim>\<open>POST /orders\<close> with an empty item list answers
  400 and leaves the store as it is; with a non-empty item list it answers 201 with an
  order that is appended to the order collection, is owned by the authenticated user and
  carries the items of the request.
\<close>

theorem create_order_empty_rejected_nonempty_persisted:
  assumes auth: "protect g bearer st = Inr reqUser"
  shows "(orderItems b = Some [] \<longrightarrow>
            status_of (fst (create_order g bearer b st)) = 400
          \<and> snd (create_order g bearer b st) = st)
       \<and> (\<forall>items. orderItems b = Some items \<and> items \<noteq> [] \<longrightarrow>
            (\<exists>order. fst (create_order g bearer b st)
                        = Inr \<lparr>statusCode = 201, body = OrderJson order\<rparr>
                   \<and> orders (snd (create_order g bearer b st)) = orders st @ [order]
                   \<and> order_user order = user_id reqUser
                   \<and> order_items order = items))"
proof -
  have run: "create_order g bearer b st = create_order_handler b reqUser st"
    unfolding create_order_def using auth by (rule protected_Inr)
  show ?thesis
    by (auto simp: run create_order_handler_def new_Order_def Let_def)
qed

theorem create_order_witness:
  "protect sample_gate (Some ''tok-A'') (sample_db False) = Inr (user_A\<lparr>password := None\<rparr>)
   \<and> status_of (fst (create_order sample_gate (Some ''tok-A'')
                       (sample_order_body (Some [])) (sample_db False))) = 400
   \<and> snd (create_order sample_gate (Some ''tok-A'')
            (sample_order_body (Some [])) (sample_db False)) = sample_db False
   \<and> (\<exists>order. fst (create_order sample_gate (Some ''tok-A'')
                      (sample_order_body (Some [\<lparr>item_product = 7, item_qty = 1, item_price = 89\<rparr>]))
                      (sample_db False))
                = Inr \<lparr>statusCode = 201, body = OrderJson order\<rparr>
           \<and> orders (snd (create_order sample_gate (Some ''tok-A'')
                      (sample_order_body (Some [\<lparr>item_product = 7, item_qty = 1, item_price = 89\<rparr>]))
                      (sample_db False)))
                = orders (sample_db False) @ [order]
           \<and> order_user order = 1
           \<and> order_items order = [\<lparr>item_product = 7, item_qty = 1, item_price = 89\<rparr>])"
  using create_order_empty_rejected_nonempty_persisted
          [OF protect_sample_A, of "sample_order_body (Some [])" False]
        create_order_empty_rejected_nonempty_persisted
          [OF protect_sample_A,
           of "sample_order_body (Some [\<lparr>item_product = 7, item_qty = 1, item_price = 89\<rparr>])" False]
        protect_sample_A
  by (simp add: sample_order_body_def user_A_def)

text \<open>
  C10. For an authenticated request whose body has no \<^verbatim>\<open>orderItems\<close> field at all,
  \<^verbatim>\<open>POST /orders\<close> does not answer 400: it answers 201 with an order that is appended to
  the order collection, is owned by the authenticated user and has no items.
\<close>

theorem create_order_items_absent:
  assumes auth: "protect g bearer st = Inr reqUser"
      and absent: "orderItems b = None"
  shows "\<exists>order. fst (create_order g bearer b st)
                   = Inr \<lparr>statusCode = 201, body = OrderJson order\<rparr>
               \<and> orders (snd (create_order g bearer b st)) = orders st @ [order]
               \<and> order_user order = user_id reqUser
               \<and> order_items order = []"
proof -
  have run: "create_order g bearer b st = create_order_handler b reqUser st"
    unfolding create_order_def using auth by (rule protected_Inr)
  show ?thesis
    using absent by (simp add: run create_order_handler_def new_Order_def Let_def)
qed

theorem create_order_items_absent_witness:
  "protect sample_gate (Some ''tok-A'') (sample_db False) = Inr (user_A\<lparr>password := None\<rparr>)
   \<and> orderItems (sample_order_body None) = None
   \<and> (\<exists>order. fst (create_order sample_gate (Some ''tok-A'') (sample_order_body None)
                      (sample_db False))
                = Inr \<lparr>statusCode = 201, body = OrderJson order\<rparr>
           \<and> orders (snd (create_order sample_gate (Some ''tok-A'') (sample_order_body None)
                      (sample_db False)))
                = orders (sample_db False) @ [order]
           \<and> order_user order = 1
           \<and> order_items order = [])"
proof -
  have n: "orderItems (sample_order_body None) = None" by (simp add: sample_order_body_def)
  show ?thesis
    using create_order_items_absent [OF protect_sample_A n, of False] protect_sample_A n
    by (simp add: user_A_def)
qed

section \<open>Registration\<close>

text \<open>
  C6. If some stored user has the email of a registration request, \<^verbatim>\<open>POST /users\<close>
  fails with status 400 and the message "User already exists", and the store is as it
  was. Otherwise it answers 201, one new user with the request's name and email and the
  hashed password is appended to the user collection, and the response carries the token
  generated for the new user's id.
\<close>

theorem register_taken_rejected_fresh_created:
  "((\<exists>u\<in>set (users st). email u = reg_email b) \<longrightarrow>
       register c now b st = (Inl (HttpError 400 ''User already exists''), st))
   \<and> ((\<forall>u\<in>set (users st). email u \<noteq> reg_email b) \<longrightarrow>
       (\<exists>u a. register c now b st
                 = (Inr \<lparr>statusCode = 201, body = AuthJson a\<rparr>,
                    st\<lparr>users := users st @ [u], nextId := Suc (nextId st)\<rparr>)
             \<and> name u = reg_name b \<and> email u = reg_email b
             \<and> password u = Some (hash c (reg_password b))
             \<and> auth_id a = user_id u
             \<and> auth_token a = generateToken c (user_id u)))"
proof (intro conjI impI)
  assume "\<exists>u\<in>set (users st). email u = reg_email b"
  then have "findOne (\<lambda>u. email u = reg_email b) (users st) \<noteq> None"
    by (simp add: findOne_None_iff)
  then show "register c now b st = (Inl (HttpError 400 ''User already exists''), st)"
    by (auto simp: register_def)
next
  assume "\<forall>u\<in>set (users st). email u \<noteq> reg_email b"
  then have "findOne (\<lambda>u. email u = reg_email b) (users st) = None"
    by (simp add: findOne_None_iff)
  then show "\<exists>u a. register c now b st
                 = (Inr \<lparr>statusCode = 201, body = AuthJson a\<rparr>,
                    st\<lparr>users := users st @ [u], nextId := Suc (nextId st)\<rparr>)
             \<and> name u = reg_name b \<and> email u = reg_email b
             \<and> password u = Some (hash c (reg_password b))
             \<and> auth_id a = user_id u
             \<and> auth_token a = generateToken c (user_id u)"
    by (intro exI [of _ "fst (User_create c now b st)"]
          exI [of _ "\<lparr>auth_id = nextId st, auth_name = reg_name b, auth_email = reg_email b,
                       auth_isAdmin = False, auth_token = generateToken c (nextId st),
                       auth_createdAt = None\<rparr>"])
       (simp add: register_def User_create_def Let_def)
qed

theorem register_witness:
  "users empty_db = []
   \<and> status_of (fst (register sample_crypto 10 register_A empty_db)) = 201
   \<and> map email (users (snd (register sample_crypto 10 register_A empty_db))) = [''a@x.com'']
   \<and> register sample_crypto 11 register_A (snd (register sample_crypto 10 register_A empty_db))
       = (Inl (HttpError 400 ''User already exists''),
          snd (register sample_crypto 10 register_A empty_db))"
proof -
  let ?st1 = "snd (register sample_crypto 10 register_A empty_db)"
  have none: "users empty_db = []" by (simp add: empty_db_def)
  have fresh: "\<forall>u\<in>set (users empty_db). email u \<noteq> reg_email register_A"
    by (simp add: none)
  have first: "status_of (fst (register sample_crypto 10 register_A empty_db)) = 201"
    using register_taken_rejected_fresh_created [of empty_db register_A sample_crypto 10] fresh
    by auto
  have emails: "map email (users ?st1) = [''a@x.com'']"
    using register_taken_rejected_fresh_created [of empty_db register_A sample_crypto 10] fresh
    by (auto simp: none register_A_def)
  have taken: "\<exists>u\<in>set (users ?st1). email u = reg_email register_A"
    using emails by (auto simp: register_A_def)
  have second: "register sample_crypto 11 register_A ?st1
                  = (Inl (HttpError 400 ''User already exists''), ?st1)"
    using register_taken_rejected_fresh_created [of ?st1 register_A sample_crypto 11] taken
    by blast
  show ?thesis using none first emails second by simp
qed

section \<open>Login\<close>

text \<open>
  C7. A login request whose email matches no stored user and a login request whose email
  matches a user but whose password does not verify have the same outcome: status 401
  with the one message "Invalid Email or Password", and neither changes the store.
\<close>

theorem login_failures_indistinguishable:
  assumes unknown: "\<forall>u\<in>set (users st1). email u \<noteq> login_email b1"
      and known: "findOne (\<lambda>u. email u = login_email b2) (users st2) = Some u2"
      and wrong: "\<not> matchPassword c u2 (login_password b2)"
  shows "fst (login c b1 st1) = fst (login c b2 st2)
       \<and> fst (login c b1 st1) = Inl (HttpError 401 ''Invalid Email or Password'')
       \<and> snd (login c b1 st1) = st1 \<and> snd (login c b2 st2) = st2"
proof -
  have none: "findOne (\<lambda>u. email u = login_email b1) (users st1) = None"
    using unknown by (simp add: findOne_None_iff)
  have r1: "login c b1 st1 = (Inl (HttpError 401 ''Invalid Email or Password''), st1)"
    using none by (simp add: login_def)
  have r2: "login c b2 st2 = (Inl (HttpError 401 ''Invalid Email or Password''), st2)"
    using known wrong by (simp add: login_def)
  show ?thesis by (simp add: r1 r2)
qed

theorem login_witness:
  "''nobody@x.com'' \<notin> set (map email (users (sample_db False)))
   \<and> findOne (\<lambda>u. email u = ''a@x.com'') (users (sample_db False)) = Some user_A
   \<and> \<not> matchPassword sample_crypto user_A ''wrong''
   \<and> fst (login sample_crypto \<lparr>login_email = ''nobody@x.com'', login_password = ''p''\<rparr>
             (sample_db False))
     = fst (login sample_crypto \<lparr>login_email = ''a@x.com'', login_password = ''wrong''\<rparr>
             (sample_db False))
   \<and> status_of (fst (login sample_crypto
                       \<lparr>login_email = ''a@x.com'', login_password = ''wrong''\<rparr>
                       (sample_db False))) = 401
   \<and> status_of (fst (login sample_crypto \<lparr>login_email = ''a@x.com'', login_password = ''p''\<rparr>
                       (sample_db False))) = 200"
proof -
  have u: "\<forall>u\<in>set (users (sample_db False)). email u \<noteq> ''nobody@x.com''"
    by (simp add: sample_db_def user_A_def user_B_def)
  have k: "findOne (\<lambda>u. email u = ''a@x.com'') (users (sample_db False)) = Some user_A"
    by (simp add: findOne_def sample_db_def user_A_def)
  have w: "\<not> matchPassword sample_crypto user_A ''wrong''"
    by (simp add: sample_crypto_def user_A_def)
  have ok: "status_of (fst (login sample_crypto
              \<lparr>login_email = ''a@x.com'', login_password = ''p''\<rparr> (sample_db False))) = 200"
    using k by (simp add: login_def sample_crypto_def user_A_def)
  note t = login_failures_indistinguishable
            [of "sample_db False" "\<lparr>login_email = ''nobody@x.com'', login_password = ''p''\<rparr>"
                "\<lparr>login_email = ''a@x.com'', login_password = ''wrong''\<rparr>" "sample_db False"
                user_A sample_crypto, simplified, OF u k w]
  have same: "fst (login sample_crypto
                 \<lparr>login_email = ''nobody@x.com'', login_password = ''p''\<rparr> (sample_db False))
            = fst (login sample_crypto
                 \<lparr>login_email = ''a@x.com'', login_password = ''wrong''\<rparr> (sample_db False))"
    using t by blast
  have err: "fst (login sample_crypto
                 \<lparr>login_email = ''nobody@x.com'', login_password = ''p''\<rparr> (sample_db False))
            = Inl (HttpError 401 ''Invalid Email or Password'')"
    using t by blast
  have st: "status_of (fst (login sample_crypto
                 \<lparr>login_email = ''a@x.com'', login_password = ''wrong''\<rparr> (sample_db False)))
            = 401"
    by (simp add: same [symmetric] err)
  have n: "''nobody@x.com'' \<notin> set (map email (users (sample_db False)))"
    by (simp add: sample_db_def user_A_def user_B_def)
  show ?thesis using same st n k w ok by simp
qed

section \<open>Completing a password reset\<close>

text \<open>The outcome of the completion request is decided by the token lookup alone: when a
  user holds the token, the request succeeds whatever the stored expiry is.\<close>

lemma reset_password_known_token:
  assumes "findOne (\<lambda>u. passwordResetToken u = Some token) (users st) = Some u"
  shows "reset_password c token pw st =
           (Inr \<lparr>statusCode = 200, body = Message ''Password reset successful''\<rparr>,
            st\<lparr>users := save user_id
                  (u\<lparr>password := Some (hash c pw), passwordResetToken := None,
                     passwordResetExpires := None\<rparr>) (users st)\<rparr>)"
  using assms by (simp add: reset_password_def Let_def)

lemma reset_password_unknown_token:
  assumes "findOne (\<lambda>u. passwordResetToken u = Some token) (users st) = None"
  shows "reset_password c token pw st = (Inl (HttpError 400 ''Invalid or expired token''), st)"
  using assms by (simp add: reset_password_def)

text \<open>
  C8. The claim asks that a completion request be rejected with status 400, no user being
  modified, when the stored expiry of the token has passed. At the sample store, user A
  holds the token \<open>''r1''\<close> with expiry 100; at time 200 the token is expired, yet
  \<^verbatim>\<open>PUT /users/reset-password/r1\<close> answers 200 and replaces A's password.
\<close>

theorem reset_password_accepts_expired_token:
  "token_absent_or_expired 200 ''r1'' (sample_db False)
   \<and> status_of (fst (reset_password sample_crypto ''r1'' ''new'' (sample_db False))) = 200
   \<and> findById user_id (users (snd (reset_password sample_crypto ''r1'' ''new''
                                      (sample_db False)))) 1
       = Some (user_A\<lparr>password := Some ''#new'', passwordResetToken := None,
                      passwordResetExpires := None\<rparr>)
   \<and> users (snd (reset_password sample_crypto ''r1'' ''new'' (sample_db False)))
       \<noteq> users (sample_db False)"
proof -
  let ?u = "user_A\<lparr>password := Some ''#new'', passwordResetToken := None,
               passwordResetExpires := None\<rparr>"
  have k: "findOne (\<lambda>u. passwordResetToken u = Some ''r1'') (users (sample_db False))
             = Some user_A"
    by (simp add: findOne_def sample_db_def user_A_def)
  have e: "token_absent_or_expired 200 ''r1'' (sample_db False)"
    by (simp add: token_absent_or_expired_def k) (simp add: user_A_def)
  have h: "hash sample_crypto ''new'' = ''#new''" by (simp add: sample_crypto_def)
  have s: "save user_id ?u (users (sample_db False)) = [?u, user_B]"
    by (simp add: sample_db_def user_A_def)
  have d: "?u \<noteq> user_A" by (simp add: user_A_def)
  have r: "reset_password sample_crypto ''r1'' ''new'' (sample_db False) =
           (Inr \<lparr>statusCode = 200, body = Message ''Password reset successful''\<rparr>,
            (sample_db False)\<lparr>users := [?u, user_B]\<rparr>)"
    by (simp add: reset_password_known_token [OF k] h s)
  have f: "findById user_id [?u, user_B] 1 = Some ?u"
    by (simp add: findById_def user_A_def)
  have n: "[?u, user_B] \<noteq> users (sample_db False)"
    using d by (simp add: sample_db_def)
  show ?thesis using e f n by (simp add: r)
qed

section \<open>Facts about numbers\<close>

lemma bitlen_0: "bitlen 0 = 0"
  by (simp add: bitlen.simps)

lemma bitlen_pos: "0 < n \<Longrightarrow> bitlen n = 1 + bitlen (n div 2)"
  by (subst bitlen.simps) simp

lemma floor_numeral_div: "\<lfloor>(numeral a :: rat) / numeral b\<rfloor> = numeral a div numeral b"
  using floor_divide_of_int_eq [of "numeral a" "numeral b", where ?'a = rat] by simp

lemma ceiling_numeral_div:
  "\<lceil>(numeral a :: rat) / numeral b\<rceil> = - ((- numeral a) div numeral b)"
  using floor_divide_of_int_eq [of "- numeral a" "numeral b", where ?'a = rat]
  by (simp add: ceiling_def)

lemma floor_one_div_numeral: "\<lfloor>(1 :: rat) / numeral b\<rfloor> = 1 div numeral b"
  using floor_divide_of_int_eq [of 1 "numeral b", where ?'a = rat] by simp

lemmas round_eval = exponent_def bitlen_0 bitlen_pos pow2_def round_half_even_def
  round_magnitude_def round_double_def Let_def floor_numeral_div ceiling_numeral_div
  floor_one_div_numeral

text \<open>The rounding at some doubles and between them: small integers and 4.5 are doubles;
  13/3 and 1/10 are not; a tie goes to the even significand.\<close>

lemma round_double_small:
  "round_double 2 = Finite 2" "round_double 3 = Finite 3" "round_double 4 = Finite 4"
  "round_double 5 = Finite 5" "round_double 9 = Finite 9" "round_double 13 = Finite 13"
  "round_double (9 / 2) = Finite (9 / 2)"
  by (simp_all add: round_eval)


lemma round_double_ties:
  "round_double (2 ^ 53 + 1) = Finite (2 ^ 53)"
  "round_double (2 ^ 53 + 3) = Finite (2 ^ 53 + 4)"
  by (simp_all add: round_eval)

lemma round_half_even_near: "\<bar>of_int (round_half_even x) - x\<bar> \<le> 1 / 2"
proof -
  have lo: "of_int \<lfloor>x\<rfloor> \<le> x" and hi: "x < of_int \<lfloor>x\<rfloor> + 1"
    by linarith+
  show ?thesis
    unfolding round_half_even_def Let_def using lo hi by (auto simp: abs_le_iff)
qed

text \<open>The exponent function is the binary exponent: for positive \<open>a\<close>,
  \<open>2 ^ exponent a \<le> a < 2 ^ (exponent a + 1)\<close>.\<close>

lemma bitlen_bounds:
  "0 < n \<Longrightarrow> 1 \<le> bitlen n \<and> 2 ^ nat (bitlen n - 1) \<le> n \<and> n < 2 ^ nat (bitlen n)"
proof (induction n rule: bitlen.induct)
  case (1 n)
  show ?case
  proof (cases "n = 1")
    case True
    then show ?thesis by (simp add: bitlen_pos bitlen_0)
  next
    case False
    with "1.prems" have m: "0 < n div 2" by simp
    from "1.IH" [OF _ m] "1.prems" have ih: "1 \<le> bitlen (n div 2)"
      "2 ^ nat (bitlen (n div 2) - 1) \<le> n div 2" "n div 2 < 2 ^ nat (bitlen (n div 2))"
      by simp_all
    have b: "bitlen n = 1 + bitlen (n div 2)" using "1.prems" by (rule bitlen_pos)
    have e1: "nat (bitlen n - 1) = Suc (nat (bitlen (n div 2) - 1))"
      using ih(1) b by simp
    have e2: "nat (bitlen n) = Suc (nat (bitlen (n div 2)))"
      using ih(1) b by simp
    have lo: "2 ^ nat (bitlen n - 1) \<le> n"
      using ih(2) unfolding e1 by simp
    have hi: "n < 2 ^ nat (bitlen n)"
      using ih(3) unfolding e2 by simp
    show ?thesis using lo hi b ih(1) by simp
  qed
qed

lemma exponent_bounds:
  assumes "0 < a"
  shows "pow2 (exponent a) \<le> a \<and> a < pow2 (exponent a + 1)"
proof (cases "1 \<le> a")
  case True
  let ?n = "\<lfloor>a\<rfloor>"
  have n: "0 < ?n" using True by simp
  note bb = bitlen_bounds [OF n]
  have e: "exponent a = bitlen ?n - 1" using True by (simp add: exponent_def)
  have lo: "(2::rat) ^ nat (bitlen ?n - 1) \<le> of_int ?n"
    using bb by (metis of_int_le_iff of_int_numeral of_int_power)
  have hi: "of_int ?n + 1 \<le> (2::rat) ^ nat (bitlen ?n)"
  proof -
    have "?n + 1 \<le> 2 ^ nat (bitlen ?n)" using bb by simp
    then have "(of_int (?n + 1) :: rat) \<le> of_int (2 ^ nat (bitlen ?n))"
      by (simp only: of_int_le_iff)
    then show ?thesis by simp
  qed
  have fl: "of_int ?n \<le> a" "a < of_int ?n + 1" by linarith+
  have L: "2 ^ nat (bitlen ?n - 1) \<le> a" using lo fl(1) by linarith
  have H: "a < 2 ^ nat (bitlen ?n)" using hi fl(2) by linarith
  have p1: "pow2 (bitlen ?n - 1) = 2 ^ nat (bitlen ?n - 1)"
    using bb by (simp add: pow2_def)
  have p2: "pow2 (bitlen ?n - 1 + 1) = 2 ^ nat (bitlen ?n)"
    using bb by (simp add: pow2_def)
  show ?thesis unfolding e p1 p2 using L H by blast
next
  case False
  let ?m = "\<lceil>1 / a\<rceil> - 1"
  have b: "1 < 1 / a" using False assms by simp
  have m: "0 < ?m" using b by linarith
  note bb = bitlen_bounds [OF m]
  have e: "exponent a = - bitlen ?m" using False by (simp add: exponent_def)
  have mlo: "of_int ?m < 1 / a" and mhi: "1 / a \<le> of_int ?m + 1"
    by linarith+
  have lo: "(2::rat) ^ nat (bitlen ?m - 1) \<le> of_int ?m"
    using bb by (metis of_int_le_iff of_int_numeral of_int_power)
  have hi: "of_int ?m + 1 \<le> (2::rat) ^ nat (bitlen ?m)"
  proof -
    have "?m + 1 \<le> 2 ^ nat (bitlen ?m)" using bb by simp
    then have "(of_int (?m + 1) :: rat) \<le> of_int (2 ^ nat (bitlen ?m))"
      by (simp only: of_int_le_iff)
    then show ?thesis by simp
  qed
  have A: "1 / 2 ^ nat (bitlen ?m) \<le> a"
  proof -
    have "1 / a \<le> 2 ^ nat (bitlen ?m)" using mhi hi by linarith
    then show ?thesis using assms by (simp add: field_simps)
  qed
  have B: "a < pow2 (- bitlen ?m + 1)"
  proof -
    have lt: "2 ^ nat (bitlen ?m - 1) < 1 / a" using lo mlo by linarith
    have "a < 1 / 2 ^ nat (bitlen ?m - 1)"
      using lt assms by (simp add: field_simps)
    moreover have "pow2 (- bitlen ?m + 1) = 1 / 2 ^ nat (bitlen ?m - 1)"
    proof (cases "bitlen ?m = 1")
      case True
      then show ?thesis by (simp add: pow2_def)
    next
      case False
      with bb have "- bitlen ?m + 1 < 0" by simp
      moreover have "nat (- (- bitlen ?m + 1)) = nat (bitlen ?m - 1)" by simp
      ultimately show ?thesis by (simp add: pow2_def)
    qed
    ultimately show ?thesis by simp
  qed
  have "pow2 (- bitlen ?m) = 1 / 2 ^ nat (bitlen ?m)"
    using bb by (simp add: pow2_def)
  then show ?thesis using A B by (simp add: e)
qed

lemma pow2_pos: "0 < pow2 k"
  by (simp add: pow2_def)

text \<open>The rounded magnitude is a multiple of the spacing at the exponent of the value and
  is at most half a spacing away from the value.\<close>

lemma round_magnitude_near:
  "\<bar>round_magnitude a - a\<bar> \<le> pow2 (max (exponent a) (- 1022) - 52) / 2"
proof -
  let ?ulp = "pow2 (max (exponent a) (- 1022) - 52)"
  have pos: "0 < ?ulp" by (rule pow2_pos)
  have "round_magnitude a - a = (of_int (round_half_even (a / ?ulp)) - a / ?ulp) * ?ulp"
    using pos by (simp add: round_magnitude_def Let_def field_simps)
  then have "\<bar>round_magnitude a - a\<bar> = \<bar>of_int (round_half_even (a / ?ulp)) - a / ?ulp\<bar> * ?ulp"
    using pos by (simp add: abs_mult)
  also have "\<dots> \<le> (1 / 2) * ?ulp"
    using round_half_even_near [of "a / ?ulp"] pos by (intro mult_right_mono) simp_all
  finally show ?thesis by simp
qed

text \<open>At the ends of the range: the largest double is \<open>2 ^ 1024 - 2 ^ 971\<close>; half a
  spacing above it the result is an infinity; half of the smallest positive double
  \<open>1 / 2 ^ 1074\<close> rounds to zero.\<close>

lemma round_double_range:
  "round_double (2 ^ 1024 - 2 ^ 970 - 1) = Finite (2 ^ 1024 - 2 ^ 971)"
  "round_double (2 ^ 1024 - 2 ^ 970) = PosInfinity"
  "round_double (1 / 2 ^ 1075) = Finite 0"
  by (simp_all add: round_eval)

section \<open>Adding to the cart\<close>

lemma hex_lib_171:
  "toString hex_lib 171 = ''0000000000000000000000ab''"
  "castObjectId hex_lib ''0000000000000000000000ab'' = Some 171"
  "castObjectId hex_lib ''0000000000000000000000AB'' = Some 171"
  by code_simp+

lemma update_first_index:
  "\<exists>x\<in>set xs. q x \<Longrightarrow>
     \<exists>k<length xs. q (xs ! k) \<and> (\<forall>j<k. \<not> q (xs ! j))
        \<and> update_first q f xs = xs[k := f (xs ! k)]"
proof (induction xs)
  case Nil
  then show ?case by simp
next
  case (Cons x xs)
  show ?case
  proof (cases "q x")
    case True
    then have "q ((x # xs) ! 0) \<and> (\<forall>j<0. \<not> q ((x # xs) ! j))
        \<and> update_first q f (x # xs) = (x # xs)[0 := f ((x # xs) ! 0)]"
      by simp
    then show ?thesis by (intro exI [of _ 0]) simp
  next
    case False
    with Cons.prems have "\<exists>y\<in>set xs. q y" by auto
    from Cons.IH [OF this] obtain k where k: "k < length xs" "q (xs ! k)"
      "\<forall>j<k. \<not> q (xs ! j)" "update_first q f xs = xs[k := f (xs ! k)]"
      by blast
    have "\<forall>j<Suc k. \<not> q ((x # xs) ! j)"
      using False k(3) by (auto simp: less_Suc_eq_0_disj)
    then show ?thesis
      using False k by (intro exI [of _ "Suc k"]) simp
  qed
qed

lemma map_product_update_first:
  "map product (update_first q (\<lambda>item. item\<lparr>quantity := g item\<rparr>) items) = map product items"
  by (induction items) auto

text \<open>
  What the route does for a request that spells the product id as the library prints it.
  Let the library cast every printed id back to that id, and let the \<^verbatim>\<open>productId\<close> of the
  request be the printed form of \<open>pid\<close>. Then, for a stored user, the route answers 200; if
  the cart has an entry for \<open>pid\<close>, the quantity of the first such entry is increased (in
  double arithmetic) by the requested quantity and the products of the cart are as they
  were; otherwise one entry for \<open>pid\<close> is appended; and a cart with at most one entry per
  product stays so.
\<close>

lemma add_to_cart_canonical:
  assumes found: "findById user_id (users st) uid = Some u"
      and roundtrip: "\<And>i. castObjectId lib (toString lib i) = Some i"
      and canonical: "productId b = toString lib pid"
  shows "\<exists>cart'. add_to_cart lib uid b st
             = (Inr \<lparr>statusCode = 200, body = Message ''Product added to cart''\<rparr>,
                st\<lparr>users := save user_id (u\<lparr>cart := cart'\<rparr>) (users st)\<rparr>)
         \<and> (pid \<in> set (map product (cart u)) \<longrightarrow>
               (\<exists>k<length (cart u).
                   product (cart u ! k) = pid
                 \<and> (\<forall>j<k. product (cart u ! j) \<noteq> pid)
                 \<and> cart' = (cart u)[k := (cart u ! k)
                                \<lparr>quantity := js_add (quantity (cart u ! k)) (cb_quantity b)\<rparr>])
             \<and> map product cart' = map product (cart u))
         \<and> (pid \<notin> set (map product (cart u)) \<longrightarrow>
               cart' = cart u @ [\<lparr>product = pid, quantity = cb_quantity b\<rparr>])
         \<and> (distinct (map product (cart u)) \<longrightarrow> distinct (map product cart'))"
proof -
  have inj: "toString lib i = toString lib j \<longleftrightarrow> i = j" for i j
    by (metis option.inject roundtrip)
  let ?q = "\<lambda>item. toString lib (product item) = productId b"
  let ?f = "\<lambda>item. item\<lparr>quantity := js_add (quantity item) (cb_quantity b)\<rparr>"
  have q: "?q = (\<lambda>item. product item = pid)"
    by (simp add: canonical inj)
  have none_iff: "find ?q (cart u) = None \<longleftrightarrow> pid \<notin> set (map product (cart u))"
    by (auto simp: find_None_iff canonical inj)
  show ?thesis
  proof (cases "pid \<in> set (map product (cart u))")
    case True
    then have "find ?q (cart u) \<noteq> None" using none_iff by blast
    then obtain it where it: "find ?q (cart u) = Some it" by auto
    have run: "add_to_cart lib uid b st
             = (Inr \<lparr>statusCode = 200, body = Message ''Product added to cart''\<rparr>,
                st\<lparr>users := save user_id (u\<lparr>cart := update_first ?q ?f (cart u)\<rparr>) (users st)\<rparr>)"
      using found it by (simp add: add_to_cart_def Let_def)
    from True have "\<exists>x\<in>set (cart u). ?q x" by (auto simp: canonical inj)
    from update_first_index [OF this, of ?f] obtain k where k: "k < length (cart u)"
      "?q (cart u ! k)" "\<forall>j<k. \<not> ?q (cart u ! j)"
      "update_first ?q ?f (cart u) = (cart u)[k := ?f (cart u ! k)]"
      by blast
    have k': "product (cart u ! k) = pid" "\<forall>j<k. product (cart u ! j) \<noteq> pid"
      using k(2,3) by (simp_all add: canonical inj)
    have prods: "map product (update_first ?q ?f (cart u)) = map product (cart u)"
      by (rule map_product_update_first)
    have upd: "\<exists>k<length (cart u).
                   product (cart u ! k) = pid
                 \<and> (\<forall>j<k. product (cart u ! j) \<noteq> pid)
                 \<and> update_first ?q ?f (cart u) = (cart u)[k := (cart u ! k)
                                \<lparr>quantity := js_add (quantity (cart u ! k)) (cb_quantity b)\<rparr>]"
      using k(1,4) k' by blast
    show ?thesis
      apply (intro exI [of _ "update_first ?q ?f (cart u)"] conjI impI)
          apply (rule run)
         apply (rule upd)
        apply (rule prods)
       apply (use True in blast)
      apply (simp only: prods)
      done
  next
    case False
    then have none: "find ?q (cart u) = None" using none_iff by blast
    have cast: "castObjectId lib (productId b) = Some pid"
      by (simp add: canonical roundtrip)
    have run: "add_to_cart lib uid b st
             = (Inr \<lparr>statusCode = 200, body = Message ''Product added to cart''\<rparr>,
                st\<lparr>users := save user_id
                  (u\<lparr>cart := cart u @ [\<lparr>product = pid, quantity = cb_quantity b\<rparr>]\<rparr>) (users st)\<rparr>)"
      using found none cast by (simp add: add_to_cart_def Let_def)
    have dist: "distinct (map product (cart u)) \<Longrightarrow>
        distinct (map product (cart u @ [\<lparr>product = pid, quantity = cb_quantity b\<rparr>]))"
      using False by simp
    show ?thesis
      apply (intro exI [of _ "cart u @ [\<lparr>product = pid, quantity = cb_quantity b\<rparr>]"] conjI impI)
          apply (rule run)
         apply (use False in blast)
        apply (use False in blast)
       apply (rule refl)
      apply (erule dist)
      done
  qed
qed

text \<open>
  C5. The claim asks that adding a product whose reference is already in the cart
  increments that entry and adds none, so that a cart never has two entries for one
  product. In the sample store the cart of user A has one entry, for the product with id
  171, which prints as \<open>0000000000000000000000ab\<close>. A request for quantity 3 that spells
  this id in upper case matches no entry in the string comparison, casts to the same id
  171, and is appended: the route answers 200 and the cart has two entries for product
  171. The same request with the id in lower case increments the entry to 5.
\<close>

theorem add_to_cart_duplicates_on_other_spelling:
  "cart user_A = [\<lparr>product = 171, quantity = Finite 2\<rparr>]
   \<and> toString hex_lib 171 = ''0000000000000000000000ab''
   \<and> castObjectId hex_lib ''0000000000000000000000AB'' = Some 171
   \<and> add_to_cart hex_lib 1 \<lparr>productId = ''0000000000000000000000AB'', cb_quantity = Finite 3\<rparr>
        (sample_db False)
     = (Inr \<lparr>statusCode = 200, body = Message ''Product added to cart''\<rparr>,
        (sample_db False)\<lparr>users :=
           [user_A\<lparr>cart := [\<lparr>product = 171, quantity = Finite 2\<rparr>,
                              \<lparr>product = 171, quantity = Finite 3\<rparr>]\<rparr>, user_B]\<rparr>)
   \<and> carts_unique (sample_db False)
   \<and> \<not> carts_unique (snd (add_to_cart hex_lib 1
          \<lparr>productId = ''0000000000000000000000AB'', cb_quantity = Finite 3\<rparr> (sample_db False)))
   \<and> add_to_cart hex_lib 1 \<lparr>productId = ''0000000000000000000000ab'', cb_quantity = Finite 3\<rparr>
        (sample_db False)
     = (Inr \<lparr>statusCode = 200, body = Message ''Product added to cart''\<rparr>,
        (sample_db False)\<lparr>users :=
           [user_A\<lparr>cart := [\<lparr>product = 171, quantity = Finite 5\<rparr>]\<rparr>, user_B]\<rparr>)"
proof -
  have c: "cart user_A = [\<lparr>product = 171, quantity = Finite 2\<rparr>]"
    by (simp add: user_A_def)
  have f: "findById user_id (users (sample_db False)) (Suc 0) = Some user_A"
    by (simp add: findById_def sample_db_def user_A_def)
  have upper_differs: "''0000000000000000000000ab'' \<noteq> ''0000000000000000000000AB''"
    by simp
  have sv: "save user_id (user_A\<lparr>cart := cs\<rparr>) (users (sample_db False))
              = [user_A\<lparr>cart := cs\<rparr>, user_B]" for cs
    by (simp add: sample_db_def user_A_def)
  have upper: "add_to_cart hex_lib 1
        \<lparr>productId = ''0000000000000000000000AB'', cb_quantity = Finite 3\<rparr> (sample_db False)
     = (Inr \<lparr>statusCode = 200, body = Message ''Product added to cart''\<rparr>,
        (sample_db False)\<lparr>users :=
           [user_A\<lparr>cart := [\<lparr>product = 171, quantity = Finite 2\<rparr>,
                              \<lparr>product = 171, quantity = Finite 3\<rparr>]\<rparr>, user_B]\<rparr>)"
    using upper_differs by (simp add: add_to_cart_def f c hex_lib_171 Let_def sv)
  have lower: "add_to_cart hex_lib 1
        \<lparr>productId = ''0000000000000000000000ab'', cb_quantity = Finite 3\<rparr> (sample_db False)
     = (Inr \<lparr>statusCode = 200, body = Message ''Product added to cart''\<rparr>,
        (sample_db False)\<lparr>users :=
           [user_A\<lparr>cart := [\<lparr>product = 171, quantity = Finite 5\<rparr>]\<rparr>, user_B]\<rparr>)"
    by (simp add: add_to_cart_def f c hex_lib_171 Let_def sv round_double_small)
  have before: "carts_unique (sample_db False)"
    by (simp add: carts_unique_def sample_db_def user_A_def user_B_def)
  have after: "\<not> carts_unique (snd (add_to_cart hex_lib 1
          \<lparr>productId = ''0000000000000000000000AB'', cb_quantity = Finite 3\<rparr> (sample_db False)))"
    unfolding upper by (simp add: carts_unique_def)
  show ?thesis
    by (intro conjI c hex_lib_171 upper lower before after)
qed

section \<open>Facts about the review handler\<close>

lemma find_None_reviewers:
  "find (\<lambda>r. review_user r = uid) rs = None \<longleftrightarrow> uid \<notin> set (map review_user rs)"
  by (auto simp: find_None_iff)

text \<open>The two ways in which the review handler ends for a stored product.\<close>

lemma review_handler_already:
  assumes "findById product_id (products st) pid = Some p"
      and "user_id reqUser \<in> set (map review_user (reviews p))"
  shows "review_handler pid b reqUser st = (Inl (HttpError 400 ''Product already Reviewed''), st)"
proof -
  from assms(2) have "find (\<lambda>r. review_user r = user_id reqUser) (reviews p) \<noteq> None"
    using find_None_reviewers [of "user_id reqUser" "reviews p"] by blast
  then show ?thesis using assms(1) by (auto simp: review_handler_def)
qed

lemma review_handler_first:
  assumes "findById product_id (products st) pid = Some p"
      and "user_id reqUser \<notin> set (map review_user (reviews p))"
  shows "review_handler pid b reqUser st =
           (Inr \<lparr>statusCode = 201, body = Message ''Reviewed Added''\<rparr>,
            st\<lparr>products := save product_id (pushed_review reqUser b p) (products st)\<rparr>)"
proof -
  from assms(2) have "find (\<lambda>r. review_user r = user_id reqUser) (reviews p) = None"
    using find_None_reviewers [of "user_id reqUser" "reviews p"] by blast
  then show ?thesis
    using assms(1)
    by (simp add: review_handler_def Let_def pushed_review_def js_mean_def foldl_map)
qed

lemma review_handler_missing:
  "findById product_id (products st) pid = None \<Longrightarrow>
   review_handler pid b reqUser st = (Inl (HttpError 404 ''Product not Found''), st)"
  by (simp add: review_handler_def)

lemma post_review_first:
  assumes "protect g bearer st = Inr reqUser"
      and "findById product_id (products st) pid = Some p"
      and "user_id reqUser \<notin> set (map review_user (reviews p))"
  shows "post_review g bearer pid b st =
           (Inr \<lparr>statusCode = 201, body = Message ''Reviewed Added''\<rparr>,
            st\<lparr>products := save product_id (pushed_review reqUser b p) (products st)\<rparr>)"
  using assms by (simp add: post_review_def protected_Inr review_handler_first)


lemma pushed_review_props:
  "product_id (pushed_review reqUser b p) = product_id p"
  "map review_rating (reviews (pushed_review reqUser b p))
     = map review_rating (reviews p) @ [rb_rating b]"
  "map review_user (reviews (pushed_review reqUser b p))
     = map review_user (reviews p) @ [user_id reqUser]"
  "numReviews (pushed_review reqUser b p) = length (reviews (pushed_review reqUser b p))"
  "rating (pushed_review reqUser b p)
     = js_mean (map review_rating (reviews (pushed_review reqUser b p)))"
  by (simp_all add: pushed_review_def Let_def)


section \<open>Reviews and the aggregate rating\<close>





lemma post_review_sample_A:
  "post_review sample_gate (Some ''tok-A'') 7 \<lparr>rb_rating = Finite 5, rb_comment = ''good''\<rparr>
     (sample_db False)
   = (Inr \<lparr>statusCode = 201, body = Message ''Reviewed Added''\<rparr>,
      (sample_db False)\<lparr>products :=
         [pushed_review (user_A\<lparr>password := None\<rparr>)
            \<lparr>rb_rating = Finite 5, rb_comment = ''good''\<rparr> sample_product]\<rparr>)"
proof -
  have f: "findById product_id (products (sample_db False)) 7 = Some sample_product"
    by (simp add: findById_def sample_db_def sample_product_def)
  have n: "user_id (user_A\<lparr>password := None\<rparr>) \<notin> set (map review_user (reviews sample_product))"
    by (simp add: sample_product_def)
  have s: "save product_id (pushed_review (user_A\<lparr>password := None\<rparr>)
              \<lparr>rb_rating = Finite 5, rb_comment = ''good''\<rparr> sample_product)
              (products (sample_db False))
           = [pushed_review (user_A\<lparr>password := None\<rparr>)
                \<lparr>rb_rating = Finite 5, rb_comment = ''good''\<rparr> sample_product]"
    by (simp add: sample_db_def pushed_review_props)
  show ?thesis
    by (simp add: post_review_first [OF protect_sample_A f n] s)
qed



text \<open>
  C3. When the review list of the product already holds a review of the authenticated
  user, \<^verbatim>\<open>POST /products/:id/review\<close> fails with status 400 and the store (so the
  product's review list, rating and review count) is as it was. And whatever the request,
  if no stored product has two reviews of one user before it, none has after it.
\<close>

theorem second_review_rejected_one_per_user:
  "(protect g bearer st = Inr reqUser
      \<and> findById product_id (products st) pid = Some p
      \<and> user_id reqUser \<in> set (map review_user (reviews p)) \<longrightarrow>
        post_review g bearer pid b st = (Inl (HttpError 400 ''Product already Reviewed''), st))
   \<and> (one_review_per_user st \<longrightarrow> one_review_per_user (snd (post_review g bearer pid b st)))"
proof (intro conjI impI)
  assume "protect g bearer st = Inr reqUser
      \<and> findById product_id (products st) pid = Some p
      \<and> user_id reqUser \<in> set (map review_user (reviews p))"
  then show "post_review g bearer pid b st = (Inl (HttpError 400 ''Product already Reviewed''), st)"
    by (simp add: post_review_def protected_Inr review_handler_already)
next
  assume inv: "one_review_per_user st"
  show "one_review_per_user (snd (post_review g bearer pid b st))"
  proof (cases "protect g bearer st")
    case (Inl e)
    then show ?thesis using inv by (simp add: post_review_def protected_Inl)
  next
    case (Inr u)
    then have run: "post_review g bearer pid b st = review_handler pid b u st"
      by (simp add: post_review_def protected_Inr)
    show ?thesis
    proof (cases "findById product_id (products st) pid")
      case None
      then show ?thesis using inv by (simp add: run review_handler_missing)
    next
      case (Some q)
      show ?thesis
      proof (cases "user_id u \<in> set (map review_user (reviews q))")
        case True
        then show ?thesis using inv by (simp add: run review_handler_already [OF Some])
      next
        case False
        have "q \<in> set (products st)" using Some by (rule findById_mem)
        with inv have "distinct (map review_user (reviews q))"
          by (simp add: one_review_per_user_def list_all_iff)
        with False have "distinct (map review_user (reviews (pushed_review u b q)))"
          by (simp add: pushed_review_props)
        then show ?thesis
          using inv unfolding one_review_per_user_def
          by (simp add: run review_handler_first [OF Some False] list_all_save)
      qed
    qed
  qed
qed

theorem second_review_witness:
  "status_of (fst (post_review sample_gate (Some ''tok-A'') 7
       \<lparr>rb_rating = Finite 5, rb_comment = ''good''\<rparr> (sample_db False))) = 201
   \<and> post_review sample_gate (Some ''tok-A'') 7 \<lparr>rb_rating = Finite 1, rb_comment = ''again''\<rparr>
       (snd (post_review sample_gate (Some ''tok-A'') 7
              \<lparr>rb_rating = Finite 5, rb_comment = ''good''\<rparr> (sample_db False)))
     = (Inl (HttpError 400 ''Product already Reviewed''),
        snd (post_review sample_gate (Some ''tok-A'') 7
              \<lparr>rb_rating = Finite 5, rb_comment = ''good''\<rparr> (sample_db False)))
   \<and> one_review_per_user (sample_db False)
   \<and> one_review_per_user (snd (post_review sample_gate (Some ''tok-A'') 7
              \<lparr>rb_rating = Finite 5, rb_comment = ''good''\<rparr> (sample_db False)))"
proof -
  let ?p1 = "pushed_review (user_A\<lparr>password := None\<rparr>)
               \<lparr>rb_rating = Finite 5, rb_comment = ''good''\<rparr> sample_product"
  let ?st1 = "(sample_db False)\<lparr>products := [?p1]\<rparr>"
  have auth_A: "protect sample_gate (Some ''tok-A'') ?st1 = Inr (user_A\<lparr>password := None\<rparr>)"
    using protect_users [of ?st1 "sample_db False"] protect_sample_A [of False] by simp
  have f1: "findById product_id (products ?st1) 7 = Some ?p1"
    by (simp add: findById_def pushed_review_props sample_product_def)
  have m1: "user_id (user_A\<lparr>password := None\<rparr>) \<in> set (map review_user (reviews ?p1))"
    by (simp add: pushed_review_props)
  have inv0: "one_review_per_user (sample_db False)"
    by (simp add: one_review_per_user_def sample_db_def sample_product_def)
  have again: "post_review sample_gate (Some ''tok-A'') 7
                 \<lparr>rb_rating = Finite 1, rb_comment = ''again''\<rparr> ?st1
               = (Inl (HttpError 400 ''Product already Reviewed''), ?st1)"
    using second_review_rejected_one_per_user
            [of sample_gate "Some ''tok-A''" ?st1 "user_A\<lparr>password := None\<rparr>" 7 ?p1
                "\<lparr>rb_rating = Finite 1, rb_comment = ''again''\<rparr>"]
          auth_A f1 m1
    by blast
  have inv1: "one_review_per_user (snd (post_review sample_gate (Some ''tok-A'') 7
                 \<lparr>rb_rating = Finite 5, rb_comment = ''good''\<rparr> (sample_db False)))"
    using second_review_rejected_one_per_user
            [of sample_gate "Some ''tok-A''" "sample_db False" _ 7 _
                "\<lparr>rb_rating = Finite 5, rb_comment = ''good''\<rparr>"]
          inv0
    by blast
  show ?thesis using again inv0 inv1 by (simp add: post_review_sample_A)
qed

end
